theory Spec2Isabelle
  imports Main
begin

section \<open>The host language: exceptions, decimals, floats, objects\<close>

text \<open>
  The repository is one Python module, \<^verbatim>\<open>vectors.py\<close>, defining the class
  \<^verbatim>\<open>Vector\<close> over \<^verbatim>\<open>decimal.Decimal\<close> with the module-wide context
  \<^verbatim>\<open>getcontext().prec = 30\<close>. The model below is the module as CPython runs it
  with the C implementation of \<^verbatim>\<open>decimal\<close> and IEEE-754 binary64 floats.

  Exceptions are values. The constructors are the exception classes the module and the
  library raise; a message is kept where the module gives one, and is the empty string
  for an exception the library raises. The names of the specification map onto them so:
  EmptyVectorError is \<^verbatim>\<open>ValueError\<close> without message;
  NotIterableError is \<^verbatim>\<open>TypeError('The coordinates must be iterable')\<close>;
  InvalidNumberError is \<^verbatim>\<open>decimal.InvalidOperation\<close>;
  NotAVectorError is \<^verbatim>\<open>TypeError('Argument must be a vector')\<close> (and
  \<^verbatim>\<open>'You can only add two vectors'\<close> for the operators);
  UnsupportedDimensionError is \<^verbatim>\<open>NotImplementedError\<close>;
  ZeroVectorError is \<^verbatim>\<open>ZeroDivisionError\<close>;
  ZeroMagnitudeError is \<^verbatim>\<open>Exception('Cannot find angle for a zero vector')\<close>.
\<close>

datatype pyerr =
    ValueError string
  | TypeError string
  | InvalidOperation string
  | ZeroDivisionError string
  | NotImplementedError
  | PyException string
  | IndexError string
  | AttributeError string
  | Overflow
  | DivisionByZero

fun and_then :: "pyerr + 'a \<Rightarrow> ('a \<Rightarrow> pyerr + 'b) \<Rightarrow> pyerr + 'b" where
  "and_then (Inl e) f = Inl e"
| "and_then (Inr x) f = f x"

text \<open>A list comprehension whose element expression may raise: the first exception wins.\<close>

fun map_exc :: "('a \<Rightarrow> pyerr + 'b) \<Rightarrow> 'a list \<Rightarrow> pyerr + 'b list" where
  "map_exc f [] = Inr []"
| "map_exc f (x # xs) =
     (case f x of
        Inl e \<Rightarrow> Inl e
      | Inr y \<Rightarrow> (case map_exc f xs of Inl e \<Rightarrow> Inl e | Inr ys \<Rightarrow> Inr (y # ys)))"

text \<open>
  A \<^verbatim>\<open>Decimal\<close> is finite, infinite or a NaN. A finite one is \<open>Fin c e\<close>, the
  number \<open>c * 10 ^ e\<close>, with the sign in the coefficient: the sign of a zero and the
  payload of a NaN are not represented (no operation of the module reads them; \<^verbatim>\<open>==\<close>
  and the ordering compare numerical values). \<open>Inf True\<close> is \<^verbatim>\<open>-Infinity\<close>.
\<close>

datatype decimal = Fin int int | Inf bool | NaN | SNaN

text \<open>
  A \<^verbatim>\<open>float\<close>: \<open>FFin m e\<close> is the number \<open>m * 2 ^ e\<close> (the sign of a zero is
  not represented), \<open>FInf True\<close> is \<^verbatim>\<open>-inf\<close>.
\<close>

datatype pyfloat = FFin int int | FInf bool | FNaN

text \<open>\<^verbatim>\<open>Decimal(f)\<close> of a float is exact: \<open>m * 2 ^ e\<close> with \<open>e < 0\<close> is
  \<open>m * 5 ^ (- e) * 10 ^ e\<close>.\<close>

fun decimal_of_float :: "pyfloat \<Rightarrow> decimal" where
  "decimal_of_float (FFin m e) =
     (if 0 \<le> e then Fin (m * 2 ^ nat e) 0 else Fin (m * 5 ^ nat (- e)) e)"
| "decimal_of_float (FInf s) = Inf s"
| "decimal_of_float FNaN = NaN"

text \<open>
  The instances of \<^verbatim>\<open>Vector\<close>: the two attributes \<^verbatim>\<open>__init__\<close> sets.
\<close>

record vector =
  coordinates :: "decimal list"
  dimension :: nat

text \<open>
  The objects a caller can pass. \<open>pyelem\<close> are the elements of a sequence of
  coordinates (scalars: \<^verbatim>\<open>None\<close>, \<^verbatim>\<open>bool\<close>, \<^verbatim>\<open>int\<close>, \<^verbatim>\<open>float\<close>,
  \<^verbatim>\<open>str\<close>, \<^verbatim>\<open>Decimal\<close>); \<open>pyobj\<close> are the arguments of the constructor and of
  the methods: a scalar, a list or a tuple of scalars, or a \<^verbatim>\<open>Vector\<close>. Sequences
  nested in sequences, generators, dictionaries and user classes are outside the model.
\<close>

datatype pyelem =
    ENone
  | EBool bool
  | EInt int
  | EFloat pyfloat
  | EStr string
  | EDecimal decimal

datatype pyobj =
    PScalar pyelem
  | PList "pyelem list"
  | PTuple "pyelem list"
  | PVector vector

text \<open>
  What the module takes from its host and the model takes as a parameter: the syntax of
  decimal numerals, \<^verbatim>\<open>Decimal(s)\<close> of a string (\<open>None\<close> when the library raises
  \<^verbatim>\<open>decimal.InvalidOperation\<close>), and the C library's arc cosine on the floats of
  \<open>[-1, 1]\<close>.
\<close>

record host =
  decimal_of_str :: "string \<Rightarrow> decimal option"
  libm_acos :: "pyfloat \<Rightarrow> pyfloat"

text \<open>Truth value testing, \<^verbatim>\<open>bool(x)\<close>.\<close>

fun truthy_elem :: "pyelem \<Rightarrow> bool" where
  "truthy_elem ENone = False"
| "truthy_elem (EBool b) = b"
| "truthy_elem (EInt i) = (i \<noteq> 0)"
| "truthy_elem (EFloat (FFin m e)) = (m \<noteq> 0)"
| "truthy_elem (EFloat f) = True"
| "truthy_elem (EStr s) = (s \<noteq> [])"
| "truthy_elem (EDecimal (Fin c e)) = (c \<noteq> 0)"
| "truthy_elem (EDecimal d) = True"

fun truthy :: "pyobj \<Rightarrow> bool" where
  "truthy (PScalar x) = truthy_elem x"
| "truthy (PList xs) = (xs \<noteq> [])"
| "truthy (PTuple xs) = (xs \<noteq> [])"
| "truthy (PVector v) = True"

text \<open>
  Iteration, \<^verbatim>\<open>for x in obj\<close>: a list and a tuple give their elements, a string its
  characters as one-character strings; nothing else of the model is iterable (the class
  \<^verbatim>\<open>Vector\<close> defines neither \<^verbatim>\<open>__iter__\<close> nor \<^verbatim>\<open>__getitem__\<close>), and the
  interpreter raises \<^verbatim>\<open>TypeError\<close>.
\<close>

fun py_iter :: "pyobj \<Rightarrow> pyerr + pyelem list" where
  "py_iter (PList xs) = Inr xs"
| "py_iter (PTuple xs) = Inr xs"
| "py_iter (PScalar (EStr s)) = Inr (map (\<lambda>c. EStr [c]) s)"
| "py_iter obj = Inl (TypeError [])"

text \<open>\<^verbatim>\<open>len(obj)\<close>, with the \<^verbatim>\<open>TypeError\<close> of an object without length.\<close>

fun py_len :: "pyobj \<Rightarrow> pyerr + nat" where
  "py_len (PList xs) = Inr (length xs)"
| "py_len (PTuple xs) = Inr (length xs)"
| "py_len (PScalar (EStr s)) = Inr (length s)"
| "py_len obj = Inl (TypeError [])"

text \<open>
  \<^verbatim>\<open>Decimal(x)\<close>: exact for a number (a \<^verbatim>\<open>bool\<close> is the integer 0 or 1), the
  value itself for a \<^verbatim>\<open>Decimal\<close>, the host's numeral syntax for a string, and
  \<^verbatim>\<open>TypeError\<close> for \<^verbatim>\<open>None\<close>.
\<close>

fun Decimal :: "host \<Rightarrow> pyelem \<Rightarrow> pyerr + decimal" where
  "Decimal H ENone = Inl (TypeError [])"
| "Decimal H (EBool b) = Inr (Fin (if b then 1 else 0) 0)"
| "Decimal H (EInt i) = Inr (Fin i 0)"
| "Decimal H (EFloat f) = Inr (decimal_of_float f)"
| "Decimal H (EStr s) =
     (case decimal_of_str H s of None \<Rightarrow> Inl (InvalidOperation []) | Some d \<Rightarrow> Inr d)"
| "Decimal H (EDecimal d) = Inr d"

section \<open>Decimal arithmetic in the module's context\<close>

text \<open>
  The context the module sets at import: 30 significant digits; the library's defaults
  for the rest: rounding half to even, exponents between \<open>Emin\<close> and \<open>Emax\<close>, and
  the traps \<^verbatim>\<open>InvalidOperation\<close>, \<^verbatim>\<open>DivisionByZero\<close> and \<^verbatim>\<open>Overflow\<close>
  enabled, so that each of these signals is a raised exception. \<open>Etiny\<close> is the
  exponent of the smallest subnormal, \<open>Etop\<close> the largest exponent of a full coefficient.
\<close>

definition prec :: nat where "prec = 30"
definition Emax :: int where "Emax = 999999"
definition Emin :: int where "Emin = - 999999"
definition Etiny :: int where "Etiny = Emin - (int prec - 1)"
definition Etop :: int where "Etop = Emax - (int prec - 1)"

text \<open>The number of decimal digits of a coefficient, and of binary digits.\<close>

function ndigits :: "nat \<Rightarrow> nat" where
  "ndigits n = (if n < 10 then 1 else Suc (ndigits (n div 10)))"
  by pat_completeness auto
termination
  by (relation "measure (\<lambda>n. n)") auto

declare ndigits.simps [simp del]

function bitlen :: "nat \<Rightarrow> nat" where
  "bitlen n = (if n = 0 then 0 else Suc (bitlen (n div 2)))"
  by pat_completeness auto
termination
  by (relation "measure (\<lambda>n. n)") auto

declare bitlen.simps [simp del]

text \<open>The quotient \<open>n / d\<close> rounded to the nearest integer, a tie to the even one.\<close>

definition round_half_even :: "nat \<Rightarrow> nat \<Rightarrow> nat" where
  "round_half_even n d =
     (let q = n div d; r = n mod d
      in if 2 * r < d then q
         else if d < 2 * r then q + 1
         else if even q then q else q + 1)"

definition with_sign :: "bool \<Rightarrow> nat \<Rightarrow> int" where
  "with_sign neg n = (if neg then - int n else int n)"

text \<open>
  The library's final step of every operation (\<^verbatim>\<open>_fix\<close> in \<^verbatim>\<open>_pydecimal\<close>,
  \<^verbatim>\<open>mpd_qfinalize\<close> in the C library) on the exact result \<open>c * 10 ^ e\<close>: a
  coefficient of more than \<open>prec\<close> digits, or an exponent below \<open>Etiny\<close>, is rounded;
  a result whose adjusted exponent exceeds \<open>Emax\<close>, before or after the rounding, raises
  \<^verbatim>\<open>Overflow\<close>; a zero keeps a clamped exponent.
\<close>

definition dec_fix :: "int \<Rightarrow> int \<Rightarrow> pyerr + decimal" where
  "dec_fix c e =
     (if c = 0 then Inr (Fin 0 (min (max e Etiny) Emax))
      else
        let exp_min0 = int (ndigits (nat \<bar>c\<bar>)) + e - int prec
        in if Etop < exp_min0 then Inl Overflow
           else
             let exp_min = max exp_min0 Etiny
             in if e < exp_min then
                  let q = round_half_even (nat \<bar>c\<bar>) (10 ^ nat (exp_min - e))
                  in if prec < ndigits q then
                       (if Etop < exp_min + 1 then Inl Overflow
                        else Inr (Fin (with_sign (c < 0) (q div 10)) (exp_min + 1)))
                     else Inr (Fin (with_sign (c < 0) q) exp_min)
                else Inr (Fin c e))"

text \<open>
  Rounding to \<open>p\<close> digits with no bound on the exponent: the working context of the
  C library's integer power.
\<close>

definition round_digits :: "nat \<Rightarrow> int \<Rightarrow> int \<Rightarrow> int \<times> int" where
  "round_digits p c e =
     (let n = ndigits (nat \<bar>c\<bar>)
      in if n \<le> p then (c, e)
         else
           let q = round_half_even (nat \<bar>c\<bar>) (10 ^ (n - p))
           in if p < ndigits q then (with_sign (c < 0) (q div 10), e + int (n - p) + 1)
              else (with_sign (c < 0) q, e + int (n - p)))"

text \<open>
  The binary operators. A signalling NaN raises, a quiet NaN propagates, and the
  undefined forms (\<open>Inf * 0\<close>, \<open>Inf - Inf\<close>, \<open>Inf / Inf\<close>, \<open>0 / 0\<close>) raise
  \<^verbatim>\<open>InvalidOperation\<close>. Results agree with the library in numerical value; the
  exponent chosen for a value that needs no rounding may differ.
\<close>

fun dec_mul :: "decimal \<Rightarrow> decimal \<Rightarrow> pyerr + decimal" where
  "dec_mul SNaN b = Inl (InvalidOperation [])"
| "dec_mul a SNaN = Inl (InvalidOperation [])"
| "dec_mul NaN b = Inr NaN"
| "dec_mul a NaN = Inr NaN"
| "dec_mul (Inf s) (Inf t) = Inr (Inf (s \<noteq> t))"
| "dec_mul (Inf s) (Fin c e) =
     (if c = 0 then Inl (InvalidOperation []) else Inr (Inf (s \<noteq> (c < 0))))"
| "dec_mul (Fin c e) (Inf s) =
     (if c = 0 then Inl (InvalidOperation []) else Inr (Inf (s \<noteq> (c < 0))))"
| "dec_mul (Fin c1 e1) (Fin c2 e2) = dec_fix (c1 * c2) (e1 + e2)"

fun dec_add :: "decimal \<Rightarrow> decimal \<Rightarrow> pyerr + decimal" where
  "dec_add SNaN b = Inl (InvalidOperation [])"
| "dec_add a SNaN = Inl (InvalidOperation [])"
| "dec_add NaN b = Inr NaN"
| "dec_add a NaN = Inr NaN"
| "dec_add (Inf s) (Inf t) = (if s = t then Inr (Inf s) else Inl (InvalidOperation []))"
| "dec_add (Inf s) (Fin c e) = Inr (Inf s)"
| "dec_add (Fin c e) (Inf s) = Inr (Inf s)"
| "dec_add (Fin c1 e1) (Fin c2 e2) =
     (let e = min e1 e2
      in dec_fix (c1 * 10 ^ nat (e1 - e) + c2 * 10 ^ nat (e2 - e)) e)"

text \<open>\<^verbatim>\<open>copy_negate\<close> flips the sign and rounds nothing; \<^verbatim>\<open>a - b\<close> is
  \<^verbatim>\<open>a + b.copy_negate()\<close>; the unary minus \<^verbatim>\<open>-a\<close> rounds to the context.\<close>

fun copy_negate :: "decimal \<Rightarrow> decimal" where
  "copy_negate (Fin c e) = Fin (- c) e"
| "copy_negate (Inf s) = Inf (\<not> s)"
| "copy_negate d = d"

definition dec_sub :: "decimal \<Rightarrow> decimal \<Rightarrow> pyerr + decimal" where
  "dec_sub a b = dec_add a (copy_negate b)"

fun dec_neg :: "decimal \<Rightarrow> pyerr + decimal" where
  "dec_neg SNaN = Inl (InvalidOperation [])"
| "dec_neg NaN = Inr NaN"
| "dec_neg (Inf s) = Inr (Inf (\<not> s))"
| "dec_neg (Fin c e) = dec_fix (- c) e"

text \<open>
  Division, as \<^verbatim>\<open>Decimal.__truediv__\<close> computes it: \<open>prec + 1\<close> digits of the
  quotient, made odd in the last place when the division is inexact, then the final
  rounding. An infinite dividend gives an infinity whose sign, for a zero divisor, would
  be that of the zero; the module guards both of its divisions against a zero divisor.
\<close>

fun dec_div :: "decimal \<Rightarrow> decimal \<Rightarrow> pyerr + decimal" where
  "dec_div SNaN b = Inl (InvalidOperation [])"
| "dec_div a SNaN = Inl (InvalidOperation [])"
| "dec_div NaN b = Inr NaN"
| "dec_div a NaN = Inr NaN"
| "dec_div (Inf s) (Inf t) = Inl (InvalidOperation [])"
| "dec_div (Inf s) (Fin c e) = Inr (Inf (s \<noteq> (c < 0)))"
| "dec_div (Fin c e) (Inf s) = Inr (Fin 0 Etiny)"
| "dec_div (Fin c1 e1) (Fin c2 e2) =
     (if c2 = 0 then (if c1 = 0 then Inl (InvalidOperation []) else Inl DivisionByZero)
      else if c1 = 0 then dec_fix 0 (e1 - e2)
      else
        let shift = int (ndigits (nat \<bar>c2\<bar>)) - int (ndigits (nat \<bar>c1\<bar>)) + int prec + 1;
            num = (if 0 \<le> shift then nat \<bar>c1\<bar> * 10 ^ nat shift else nat \<bar>c1\<bar>);
            den = (if 0 \<le> shift then nat \<bar>c2\<bar> else nat \<bar>c2\<bar> * 10 ^ nat (- shift));
            coeff = num div den;
            coeff' = (if num mod den \<noteq> 0 \<and> coeff mod 5 = 0 then coeff + 1 else coeff)
        in dec_fix (with_sign ((c1 < 0) \<noteq> (c2 < 0)) coeff') (e1 - e2 - shift))"

text \<open>
  \<^verbatim>\<open>x ** 2\<close>. The C library computes an integer power in a working context of
  \<open>prec + 3\<close> digits (for the one-digit exponent 2) and rounds the result a second time
  to the context.
\<close>

fun dec_pow2 :: "decimal \<Rightarrow> pyerr + decimal" where
  "dec_pow2 SNaN = Inl (InvalidOperation [])"
| "dec_pow2 NaN = Inr NaN"
| "dec_pow2 (Inf s) = Inr (Inf False)"
| "dec_pow2 (Fin c e) = (case round_digits (prec + 3) (c * c) (e + e) of (c', e') \<Rightarrow> dec_fix c' e')"

text \<open>
  \<^verbatim>\<open>sum(xs)\<close> starts from the integer 0 and adds the elements from the left; each
  addition is a \<^verbatim>\<open>Decimal\<close> addition, rounded to the context.
\<close>

fun sum_from :: "decimal \<Rightarrow> decimal list \<Rightarrow> pyerr + decimal" where
  "sum_from acc [] = Inr acc"
| "sum_from acc (x # xs) =
     (case dec_add acc x of Inl e \<Rightarrow> Inl e | Inr acc' \<Rightarrow> sum_from acc' xs)"

definition py_sum :: "decimal list \<Rightarrow> pyerr + decimal" where
  "py_sum xs = sum_from (Fin 0 0) xs"

text \<open>
  Comparisons are by numerical value. \<^verbatim>\<open>==\<close> with a quiet NaN is false and with a
  signalling NaN raises; an ordering comparison with any NaN raises.
\<close>

definition fin_eq :: "int \<Rightarrow> int \<Rightarrow> int \<Rightarrow> int \<Rightarrow> bool" where
  "fin_eq c1 e1 c2 e2 =
     (let e = min e1 e2 in c1 * 10 ^ nat (e1 - e) = c2 * 10 ^ nat (e2 - e))"

definition fin_lt :: "int \<Rightarrow> int \<Rightarrow> int \<Rightarrow> int \<Rightarrow> bool" where
  "fin_lt c1 e1 c2 e2 =
     (let e = min e1 e2 in c1 * 10 ^ nat (e1 - e) < c2 * 10 ^ nat (e2 - e))"

fun dec_eq :: "decimal \<Rightarrow> decimal \<Rightarrow> pyerr + bool" where
  "dec_eq SNaN b = Inl (InvalidOperation [])"
| "dec_eq a SNaN = Inl (InvalidOperation [])"
| "dec_eq NaN b = Inr False"
| "dec_eq a NaN = Inr False"
| "dec_eq (Inf s) (Inf t) = Inr (s = t)"
| "dec_eq (Inf s) (Fin c e) = Inr False"
| "dec_eq (Fin c e) (Inf s) = Inr False"
| "dec_eq (Fin c1 e1) (Fin c2 e2) = Inr (fin_eq c1 e1 c2 e2)"

fun dec_lt :: "decimal \<Rightarrow> decimal \<Rightarrow> pyerr + bool" where
  "dec_lt SNaN b = Inl (InvalidOperation [])"
| "dec_lt a SNaN = Inl (InvalidOperation [])"
| "dec_lt NaN b = Inl (InvalidOperation [])"
| "dec_lt a NaN = Inl (InvalidOperation [])"
| "dec_lt (Inf s) (Inf t) = Inr (s \<and> \<not> t)"
| "dec_lt (Inf s) (Fin c e) = Inr s"
| "dec_lt (Fin c e) (Inf s) = Inr (\<not> s)"
| "dec_lt (Fin c1 e1) (Fin c2 e2) = Inr (fin_lt c1 e1 c2 e2)"

section \<open>Floats and the math library\<close>

text \<open>
  The nearest binary64 float to the rational \<open>a / b\<close> (\<open>b > 0\<close>), a tie to the even
  mantissa: 53 bits above \<open>2 ^ - 1022\<close>, multiples of \<open>2 ^ - 1074\<close> below, infinity
  from \<open>2 ^ 1024 - 2 ^ 970\<close> on. \<open>E\<close> is the binary exponent of \<open>a / b\<close>.
\<close>

definition round_double :: "bool \<Rightarrow> nat \<Rightarrow> nat \<Rightarrow> pyfloat" where
  "round_double neg a b =
     (if a = 0 then FFin 0 0
      else
        let t = int (bitlen a) - int (bitlen b);
            E = (if 0 \<le> t then (if b * 2 ^ nat t \<le> a then t else t - 1)
                 else (if b \<le> a * 2 ^ nat (- t) then t else t - 1));
            p = max (E - 52) (- 1074);
            m = (if 0 \<le> p then round_half_even a (b * 2 ^ nat p)
                 else round_half_even (a * 2 ^ nat (- p)) b)
        in if 971 < p \<or> (p = 971 \<and> 2 ^ 53 \<le> m) then FInf neg
           else FFin (with_sign neg m) p)"

text \<open>\<^verbatim>\<open>float(d)\<close> of a \<^verbatim>\<open>Decimal\<close>: correctly rounded; a signalling NaN raises.\<close>

fun float_of_decimal :: "decimal \<Rightarrow> pyerr + pyfloat" where
  "float_of_decimal SNaN = Inl (ValueError ''cannot convert signaling NaN to float'')"
| "float_of_decimal NaN = Inr FNaN"
| "float_of_decimal (Inf s) = Inr (FInf s)"
| "float_of_decimal (Fin c e) =
     Inr (if 0 \<le> e then round_double (c < 0) (nat \<bar>c\<bar> * 10 ^ nat e) 1
          else round_double (c < 0) (nat \<bar>c\<bar>) (10 ^ nat (- e)))"

text \<open>The integer square root, and the correctly rounded square root of \<open>m * 2 ^ e\<close>:
  the root of \<open>m\<close> scaled by an even power of two is cut to 53 bits, and the half-way
  point \<open>h\<close> above the cut decides the last bit.\<close>

function isqrt :: "nat \<Rightarrow> nat" where
  "isqrt n =
     (if n < 2 then n
      else let r = 2 * isqrt (n div 4) in if (r + 1) * (r + 1) \<le> n then r + 1 else r)"
  by pat_completeness auto
termination
  by (relation "measure (\<lambda>n. n)") auto

declare isqrt.simps [simp del]

definition sqrt_double :: "nat \<Rightarrow> int \<Rightarrow> pyfloat" where
  "sqrt_double m e =
     (let m2 = (if even e then m else 2 * m);
          e2 = (if even e then e else e - 1);
          M = m2 * 2 ^ 108;
          r = isqrt M;
          k = bitlen r - 53;
          q = r div 2 ^ k;
          h = (2 * q + 1) * 2 ^ (k - 1);
          m' = (if h * h < M then q + 1
                else if M < h * h then q
                else if even q then q else q + 1)
      in FFin (int m') (e2 div 2 - 54 + int k))"

text \<open>\<^verbatim>\<open>math.sqrt(x)\<close> of a float: \<^verbatim>\<open>ValueError\<close> below zero.\<close>

fun math_sqrt :: "pyfloat \<Rightarrow> pyerr + pyfloat" where
  "math_sqrt FNaN = Inr FNaN"
| "math_sqrt (FInf s) = (if s then Inl (ValueError ''math domain error'') else Inr (FInf False))"
| "math_sqrt (FFin m e) =
     (if m < 0 then Inl (ValueError ''math domain error'')
      else if m = 0 then Inr (FFin 0 0)
      else Inr (sqrt_double (nat m) e))"

text \<open>
  \<^verbatim>\<open>math.acos(x)\<close> of a float: \<^verbatim>\<open>ValueError\<close> outside \<open>[-1, 1]\<close>, the host's
  arc cosine inside.
\<close>

definition float_abs_le_1 :: "int \<Rightarrow> int \<Rightarrow> bool" where
  "float_abs_le_1 m e = (if 0 \<le> e then \<bar>m\<bar> * 2 ^ nat e \<le> 1 else \<bar>m\<bar> \<le> 2 ^ nat (- e))"

fun math_acos :: "host \<Rightarrow> pyfloat \<Rightarrow> pyerr + pyfloat" where
  "math_acos H FNaN = Inr FNaN"
| "math_acos H (FInf s) = Inl (ValueError ''math domain error'')"
| "math_acos H (FFin m e) =
     (if float_abs_le_1 m e then Inr (libm_acos H (FFin m e))
      else Inl (ValueError ''math domain error''))"

text \<open>
  \<^verbatim>\<open>math.degrees(x)\<close> is the float product of \<open>x\<close> and the constant
  \<^verbatim>\<open>180.0 / pi\<close>, the float \<open>1007958012753983 * 2 ^ - 44\<close>.
\<close>

fun math_degrees :: "pyfloat \<Rightarrow> pyfloat" where
  "math_degrees FNaN = FNaN"
| "math_degrees (FInf s) = FInf s"
| "math_degrees (FFin m e) =
     (let n = nat \<bar>m\<bar> * 1007958012753983; x = e - 44
      in if 0 \<le> x then round_double (m < 0) (n * 2 ^ nat x) 1
         else round_double (m < 0) n (2 ^ nat (- x)))"

text \<open>The float constants the module uses: \<^verbatim>\<open>1e-10\<close>, \<^verbatim>\<open>math.pi\<close>.\<close>

definition tolerance :: pyfloat where
  "tolerance = FFin 7737125245533627 (- 86)"

definition math_pi :: pyfloat where
  "math_pi = FFin 884279719003555 (- 48)"

section \<open>The constructor\<close>

text \<open>
  \<^verbatim>\<open>Vector.__init__\<close>: the falsy test first, then the conversion of the elements
  inside the \<^verbatim>\<open>try\<close>, whose two handlers replace the library's exception by the
  module's own (any other exception passes through), then \<^verbatim>\<open>len(coordinates)\<close>.
\<close>

definition Vector_init :: "host \<Rightarrow> pyobj \<Rightarrow> pyerr + vector" where
  "Vector_init H coords =
     (if \<not> truthy coords then Inl (ValueError [])
      else
        (case and_then (py_iter coords) (map_exc (Decimal H)) of
           Inl (InvalidOperation m) \<Rightarrow>
             Inl (InvalidOperation ''The coordinates must be a valid number'')
         | Inl (TypeError m) \<Rightarrow> Inl (TypeError ''The coordinates must be iterable'')
         | Inl e \<Rightarrow> Inl e
         | Inr ds \<Rightarrow>
             (case py_len coords of
                Inl e \<Rightarrow> Inl e
              | Inr n \<Rightarrow> Inr \<lparr>coordinates = ds, dimension = n\<rparr>)))"

section \<open>The methods of the class\<close>

text \<open>\<^verbatim>\<open>t[i]\<close> on a tuple, for the indices \<^verbatim>\<open>enumerate\<close> produces.\<close>

definition tuple_get :: "'a list \<Rightarrow> nat \<Rightarrow> pyerr + 'a" where
  "tuple_get xs i =
     (if i < length xs then Inr (xs ! i) else Inl (IndexError ''tuple index out of range''))"

text \<open>
  The property \<^verbatim>\<open>mag\<close>:
  \<^verbatim>\<open>Decimal(math.sqrt(sum([x**2 for x in self.coordinates])))\<close>. The sum of squares is
  a \<^verbatim>\<open>Decimal\<close>; \<^verbatim>\<open>math.sqrt\<close> takes its float and returns a float, which
  \<^verbatim>\<open>Decimal\<close> converts exactly.
\<close>

definition mag :: "vector \<Rightarrow> pyerr + decimal" where
  "mag self =
     and_then (map_exc dec_pow2 (coordinates self)) (\<lambda>squares.
     and_then (py_sum squares) (\<lambda>s.
     and_then (float_of_decimal s) (\<lambda>f.
     and_then (math_sqrt f) (\<lambda>r.
     Inr (decimal_of_float r)))))"

text \<open>
  \<^verbatim>\<open>Vector.dot\<close>: the comprehension indexes \<^verbatim>\<open>v.coordinates\<close> with the positions
  of \<^verbatim>\<open>self.coordinates\<close>.
\<close>

definition dot :: "vector \<Rightarrow> pyobj \<Rightarrow> pyerr + decimal" where
  "dot self v =
     (case v of
        PVector w \<Rightarrow>
          and_then
            (map_exc (\<lambda>(i, x). and_then (tuple_get (coordinates w) i) (dec_mul x))
               (enumerate 0 (coordinates self)))
            py_sum
      | _ \<Rightarrow> Inl (TypeError ''Argument must be a vector''))"

text \<open>
  \<^verbatim>\<open>Vector.cross\<close>: the type test, the test of both dimensions, the two unpackings
  (a \<^verbatim>\<open>ValueError\<close> when a tuple has not three elements), the three components in
  the order the source evaluates them, and the constructor on the list of the three.
\<close>

definition cross :: "host \<Rightarrow> vector \<Rightarrow> pyobj \<Rightarrow> pyerr + vector" where
  "cross H self v =
     (case v of
        PVector w \<Rightarrow>
          if \<not> (dimension self = dimension w \<and> dimension w = 3) then Inl NotImplementedError
          else
            (case coordinates self of
               [x1, y1, z1] \<Rightarrow>
                 (case coordinates w of
                    [x2, y2, z2] \<Rightarrow>
                      and_then (dec_mul y1 z2) (\<lambda>a.
                      and_then (dec_mul y2 z1) (\<lambda>b.
                      and_then (dec_sub a b) (\<lambda>x.
                      and_then (dec_mul x1 z2) (\<lambda>c.
                      and_then (dec_mul x2 z1) (\<lambda>d.
                      and_then (dec_sub c d) (\<lambda>m.
                      and_then (dec_neg m) (\<lambda>y.
                      and_then (dec_mul x1 y2) (\<lambda>f.
                      and_then (dec_mul x2 y1) (\<lambda>g.
                      and_then (dec_sub f g) (\<lambda>z.
                      Vector_init H (PList [EDecimal x, EDecimal y, EDecimal z])))))))))))
                  | _ \<Rightarrow> Inl (ValueError ''unpack''))
             | _ \<Rightarrow> Inl (ValueError ''unpack''))
      | _ \<Rightarrow> Inl (TypeError ''Argument must be a vector''))"

text \<open>
  \<^verbatim>\<open>Vector.__mul__\<close>. \<^verbatim>\<open>numbers.Number\<close> holds of \<^verbatim>\<open>bool\<close>, \<^verbatim>\<open>int\<close>,
  \<^verbatim>\<open>float\<close> and \<^verbatim>\<open>Decimal\<close>. A \<^verbatim>\<open>Decimal\<close> times an integer converts the
  integer exactly; times a float the interpreter raises \<^verbatim>\<open>TypeError\<close>.
\<close>

fun is_Number :: "pyobj \<Rightarrow> bool" where
  "is_Number (PScalar (EBool b)) = True"
| "is_Number (PScalar (EInt i)) = True"
| "is_Number (PScalar (EFloat f)) = True"
| "is_Number (PScalar (EDecimal d)) = True"
| "is_Number obj = False"

fun dec_mul_obj :: "decimal \<Rightarrow> pyobj \<Rightarrow> pyerr + decimal" where
  "dec_mul_obj x (PScalar (EBool b)) = dec_mul x (Fin (if b then 1 else 0) 0)"
| "dec_mul_obj x (PScalar (EInt i)) = dec_mul x (Fin i 0)"
| "dec_mul_obj x (PScalar (EDecimal d)) = dec_mul x d"
| "dec_mul_obj x obj = Inl (TypeError [])"

definition Vector_mul :: "host \<Rightarrow> vector \<Rightarrow> pyobj \<Rightarrow> pyerr + vector" where
  "Vector_mul H self v =
     (if is_Number v then
        and_then (map_exc (\<lambda>x. dec_mul_obj x v) (coordinates self))
          (\<lambda>xs. Vector_init H (PList (map EDecimal xs)))
      else
        (case v of
           PVector w \<Rightarrow> cross H self v
         | _ \<Rightarrow> Inl (TypeError ''Argument must be number or a vector'')))"

text \<open>
  The property \<^verbatim>\<open>norm\<close>. \<^verbatim>\<open>self.mag\<close> is a property and is computed at each of
  its two uses; \<^verbatim>\<open>!=\<close> is the negation of \<^verbatim>\<open>==\<close>.
\<close>

definition norm :: "host \<Rightarrow> vector \<Rightarrow> pyerr + vector" where
  "norm H self =
     and_then (mag self) (\<lambda>m.
     and_then (dec_eq m (Fin 0 0)) (\<lambda>is0.
       if \<not> is0 then
         and_then (mag self) (\<lambda>m'.
         and_then (dec_div (decimal_of_float (FFin 1 0)) m') (\<lambda>k.
         Vector_mul H self (PScalar (EDecimal k))))
       else Inl (ZeroDivisionError ''Cannot normalize the zero vector'')))"

text \<open>
  \<^verbatim>\<open>__clean_angle\<close>: its argument is the \<^verbatim>\<open>Decimal\<close> quotient, for which the
  test for \<^verbatim>\<open>numbers.Number\<close> holds. \<^verbatim>\<open>max(a, -1)\<close> is \<open>-1\<close> when
  \<^verbatim>\<open>-1 > a\<close>, which the interpreter answers with \<^verbatim>\<open>a < -1\<close>; \<^verbatim>\<open>min(1, m)\<close> is
  \<open>m\<close> when \<^verbatim>\<open>m < 1\<close>.
\<close>

definition clean_angle :: "decimal \<Rightarrow> pyerr + decimal" where
  "clean_angle a =
     and_then (dec_lt a (Fin (- 1) 0)) (\<lambda>below.
       if below then Inr (Fin (- 1) 0)
       else and_then (dec_lt a (Fin 1 0)) (\<lambda>less. Inr (if less then a else Fin 1 0)))"

text \<open>\<^verbatim>\<open>Vector.theta\<close>; the result is a float.\<close>

definition theta :: "host \<Rightarrow> vector \<Rightarrow> pyobj \<Rightarrow> bool \<Rightarrow> pyerr + pyfloat" where
  "theta H self v in_degrees =
     (case v of
        PVector w \<Rightarrow>
          and_then (mag self) (\<lambda>m1.
          and_then (mag w) (\<lambda>m2.
          and_then (dec_mul m1 m2) (\<lambda>mag_product.
          and_then (dec_eq mag_product (Fin 0 0)) (\<lambda>is0.
            if is0 then Inl (PyException ''Cannot find angle for a zero vector'')
            else
              and_then (dot self v) (\<lambda>d.
              and_then (dec_div d mag_product) (\<lambda>quotient.
              and_then (clean_angle quotient) (\<lambda>a.
              and_then (float_of_decimal a) (\<lambda>f.
              and_then (math_acos H f) (\<lambda>t.
              Inr (if in_degrees then math_degrees t else t))))))))))
      | _ \<Rightarrow> Inl (TypeError ''Argument must be a vector''))"


definition Vector_sub :: "host \<Rightarrow> vector \<Rightarrow> pyobj \<Rightarrow> pyerr + vector" where
  "Vector_sub H self v =
     (case v of
        PVector w \<Rightarrow>
          and_then
            (map_exc (\<lambda>(i, x). and_then (tuple_get (coordinates w) i) (dec_sub x))
               (enumerate 0 (coordinates self)))
            (\<lambda>xs. Vector_init H (PList (map EDecimal xs)))
      | _ \<Rightarrow> Inl (TypeError ''You can only add two vectors''))"

text \<open>
  \<^verbatim>\<open>proj_on\<close> is \<^verbatim>\<open>self.dot(v.norm) * v.norm\<close>: the property \<^verbatim>\<open>norm\<close> is
  computed for each operand, and the product of a \<^verbatim>\<open>Decimal\<close> and a \<^verbatim>\<open>Vector\<close>
  is the vector's \<^verbatim>\<open>__rmul__\<close>, which is \<^verbatim>\<open>__mul__\<close>.
\<close>

definition proj_on :: "host \<Rightarrow> vector \<Rightarrow> pyobj \<Rightarrow> pyerr + vector" where
  "proj_on H self v =
     (case v of
        PVector w \<Rightarrow>
          and_then (norm H w) (\<lambda>n1.
          and_then (dot self (PVector n1)) (\<lambda>d.
          and_then (norm H w) (\<lambda>n2.
          Vector_mul H n2 (PScalar (EDecimal d)))))
      | _ \<Rightarrow> Inl (TypeError ''Argument must be a vector''))"

definition orthogonal_to :: "host \<Rightarrow> vector \<Rightarrow> pyobj \<Rightarrow> pyerr + vector" where
  "orthogonal_to H self v =
     (case v of
        PVector w \<Rightarrow> and_then (proj_on H self v) (\<lambda>p. Vector_sub H self (PVector p))
      | _ \<Rightarrow> Inl (TypeError ''Argument must be a vector''))"

definition decompose :: "host \<Rightarrow> vector \<Rightarrow> pyobj \<Rightarrow> pyerr + vector \<times> vector" where
  "decompose H self v =
     (case v of
        PVector w \<Rightarrow>
          and_then (proj_on H self v) (\<lambda>p.
          and_then (orthogonal_to H self v) (\<lambda>orth. Inr (p, orth)))
      | _ \<Rightarrow> Inl (TypeError ''Argument must be a vector''))"

text \<open>
  \<^verbatim>\<open>is_zero\<close> and \<^verbatim>\<open>is_orthogonal_to\<close> with their default tolerance, the float
  \<^verbatim>\<open>1e-10\<close>: a \<^verbatim>\<open>Decimal\<close> is compared with the float's exact value.
  \<^verbatim>\<open>abs\<close> of a \<^verbatim>\<open>Decimal\<close> rounds to the context.
\<close>

definition is_zero :: "vector \<Rightarrow> pyerr + bool" where
  "is_zero self = and_then (mag self) (\<lambda>m. dec_lt m (decimal_of_float tolerance))"

fun dec_abs :: "decimal \<Rightarrow> pyerr + decimal" where
  "dec_abs SNaN = Inl (InvalidOperation [])"
| "dec_abs NaN = Inr NaN"
| "dec_abs (Inf s) = Inr (Inf False)"
| "dec_abs (Fin c e) = dec_fix \<bar>c\<bar> e"

definition is_orthogonal_to :: "vector \<Rightarrow> pyobj \<Rightarrow> pyerr + bool" where
  "is_orthogonal_to self v =
     (case v of
        PVector w \<Rightarrow>
          and_then (dot self v) (\<lambda>d.
          and_then (dec_abs d) (\<lambda>a. dec_lt a (decimal_of_float tolerance)))
      | _ \<Rightarrow> Inl (TypeError ''Argument must be a vector''))"

text \<open>
  \<^verbatim>\<open>is_parallel_to\<close>: the four operands of \<^verbatim>\<open>or\<close> in order, each evaluated only
  when those before it are false. The angle is a float and \<^verbatim>\<open>==\<close> compares it with
  the \<^verbatim>\<open>Decimal\<close> by exact value.
\<close>

definition is_parallel_to :: "host \<Rightarrow> vector \<Rightarrow> pyobj \<Rightarrow> pyerr + bool" where
  "is_parallel_to H self v =
     (case v of
        PVector w \<Rightarrow>
          and_then (is_zero self) (\<lambda>z1.
            if z1 then Inr True
            else
              and_then (is_zero w) (\<lambda>z2.
                if z2 then Inr True
                else
                  and_then (theta H self v False) (\<lambda>t1.
                  and_then (dec_eq (decimal_of_float t1) (decimal_of_float math_pi)) (\<lambda>at_pi.
                    if at_pi then Inr True
                    else
                      and_then (theta H self v False) (\<lambda>t2.
                      dec_eq (decimal_of_float t2) (Fin 0 0))))))
      | _ \<Rightarrow> Inl (TypeError ''Argument must be a vector''))"



text \<open>
  What every instance satisfies once \<^verbatim>\<open>__init__\<close> has returned: at least one
  coordinate, and \<^verbatim>\<open>dimension\<close> their number.
\<close>

definition is_Vector :: "vector \<Rightarrow> bool" where
  "is_Vector v = (coordinates v \<noteq> [] \<and> dimension v = length (coordinates v))"

text \<open>
  A host for evaluating examples. Its numerals are the non-empty strings of ASCII digits
  (every other string is refused); its arc cosine is a step function that has the
  values of the C library at the three arguments \<open>1\<close>, \<open>0\<close> and \<open>-1\<close>
  (\<open>0\<close>, the float nearest \<open>pi / 2\<close>, and \<^verbatim>\<open>math.pi\<close>). The theorems hold for
  every host; this one only instantiates them.
\<close>

definition read_digits :: "string \<Rightarrow> decimal option" where
  "read_digits s =
     (if s \<noteq> [] \<and> list_all (\<lambda>c. c \<in> set ''0123456789'') s
      then Some (Fin (int (foldl (\<lambda>n c. 10 * n + (of_char c - 48)) 0 s)) 0)
      else None)"

fun acos_steps :: "pyfloat \<Rightarrow> pyfloat" where
  "acos_steps (FFin m e) =
     (if 0 < m then FFin 0 0 else if m = 0 then FFin 884279719003555 (- 49) else math_pi)"
| "acos_steps f = FNaN"

definition ref_host :: host where
  "ref_host = \<lparr>decimal_of_str = read_digits, libm_acos = acos_steps\<rparr>"

section \<open>Predicates of the statements\<close>


text \<open>
  A coefficient and an exponent that the context leaves as they are: at most \<open>prec\<close>
  digits, an exponent from \<open>Etiny\<close> on, and no overflow.
\<close>

definition is_fixed :: "int \<Rightarrow> int \<Rightarrow> bool" where
  "is_fixed c e =
     (Etiny \<le> e \<and>
      (if c = 0 then e \<le> Emax
       else ndigits (nat \<bar>c\<bar>) \<le> prec \<and> int (ndigits (nat \<bar>c\<bar>)) + e - int prec \<le> Etop))"


text \<open>
  The cross product in the words of the specification: each component is a difference
  of two products, \<open>a1 * b1 - a2 * b2\<close>, computed in the decimal context (the second
  component is the negated difference).
\<close>

definition minor :: "decimal \<Rightarrow> decimal \<Rightarrow> decimal \<Rightarrow> decimal \<Rightarrow> pyerr + decimal" where
  "minor a1 b1 a2 b2 =
     and_then (dec_mul a1 b1) (\<lambda>a. and_then (dec_mul a2 b2) (\<lambda>b. dec_sub a b))"

fun cross_formula :: "decimal list \<Rightarrow> decimal list \<Rightarrow> pyerr + decimal list" where
  "cross_formula [x1, y1, z1] [x2, y2, z2] =
     and_then (minor y1 z2 y2 z1) (\<lambda>x.
     and_then (and_then (minor x1 z2 x2 z1) dec_neg) (\<lambda>y.
     and_then (minor x1 y2 x2 y1) (\<lambda>z. Inr [x, y, z])))"
| "cross_formula xs ys = Inl (ValueError ''unpack'')"


text \<open>A vector cut to its first \<open>n\<close> coordinates.\<close>

definition first_coordinates :: "nat \<Rightarrow> vector \<Rightarrow> vector" where
  "first_coordinates n v = \<lparr>coordinates = take n (coordinates v), dimension = n\<rparr>"

section \<open>The constructor: what it accepts and what it raises\<close>

lemma map_exc_EDecimal [simp]: "map_exc (Decimal H) (map EDecimal ds) = Inr ds"
  by (induction ds) simp_all

lemma Vector_init_decimals:
  "Vector_init H (PList (map EDecimal ds)) =
     (if ds = [] then Inl (ValueError []) else Inr \<lparr>coordinates = ds, dimension = length ds\<rparr>)"
  by (simp add: Vector_init_def)

lemma Vector_init_is_Vector: "Vector_init H obj = Inr v \<Longrightarrow> is_Vector v"
proof -
  assume ok: "Vector_init H obj = Inr v"
  then have t: "truthy obj"
    by (auto simp: Vector_init_def split: if_splits)
  from ok obtain xs ds n where it: "py_iter obj = Inr xs"
    and conv: "map_exc (Decimal H) xs = Inr ds" and len: "py_len obj = Inr n"
    and v: "v = \<lparr>coordinates = ds, dimension = n\<rparr>"
    by (cases "py_iter obj")
      (auto simp: Vector_init_def split: if_splits sum.splits pyerr.splits)
  have same: "length ds = length xs" for ys
    using conv by (induction xs arbitrary: ds) (auto split: sum.splits)
  have "n = length xs \<and> xs \<noteq> []"
    using it len t by (cases obj rule: py_iter.cases) auto
  with same v show ?thesis
    by (auto simp: is_Vector_def)
qed

text \<open>
  C5. Construction from a falsy object that is not iterable: the integer \<open>0\<close>,
  \<^verbatim>\<open>None\<close>, \<^verbatim>\<open>False\<close> and the float \<open>0.0\<close> are not iterable (iterating any
  of them raises \<^verbatim>\<open>TypeError\<close>), and for each of them the constructor raises the bare
  \<^verbatim>\<open>ValueError\<close> of the empty sequence, not the \<^verbatim>\<open>TypeError\<close> of a
  non-iterable input; the empty list, tuple and string raise the same
  \<^verbatim>\<open>ValueError\<close>, so the two kinds of failure are not distinguished.
\<close>

theorem C5_falsy_scalar_raises_ValueError:
  "py_iter (PScalar (EInt 0)) = Inl (TypeError [])
   \<and> Vector_init H (PScalar (EInt 0)) = Inl (ValueError [])
   \<and> Vector_init H (PScalar ENone) = Inl (ValueError [])
   \<and> Vector_init H (PScalar (EBool False)) = Inl (ValueError [])
   \<and> Vector_init H (PScalar (EFloat (FFin 0 0))) = Inl (ValueError [])
   \<and> Vector_init H (PList []) = Inl (ValueError [])
   \<and> Vector_init H (PTuple []) = Inl (ValueError [])
   \<and> Vector_init H (PScalar (EStr [])) = Inl (ValueError [])"
  by (simp add: Vector_init_def)

lemma map_exc_list_all2:
  "map_exc f xs = Inr ys \<Longrightarrow> list_all2 (\<lambda>x y. f x = Inr y) xs ys"
  by (induction xs arbitrary: ys) (auto split: sum.splits)

lemma map_exc_first_failure:
  "map_exc f pre = Inr ys \<Longrightarrow> f x = Inl e \<Longrightarrow> map_exc f (pre @ x # post) = Inl e"
  by (induction pre arbitrary: ys) (auto split: sum.splits)

lemma py_iter_nonempty_truthy: "py_iter obj = Inr xs \<Longrightarrow> xs \<noteq> [] \<Longrightarrow> truthy obj"
  by (cases obj rule: py_iter.cases) auto

text \<open>
  C4, as stated, fails: a list holding a NaN \<^verbatim>\<open>Decimal\<close> and the float
  \<^verbatim>\<open>inf\<close> is accepted and both are stored; and an element \<^verbatim>\<open>None\<close>, which
  cannot be converted, makes the constructor raise the \<^verbatim>\<open>TypeError\<close> of a
  non-iterable input, not \<^verbatim>\<open>decimal.InvalidOperation\<close>.
\<close>

theorem C4_counterexample:
  "Vector_init ref_host (PList [EDecimal NaN, EFloat (FInf False)])
     = Inr \<lparr>coordinates = [NaN, Inf False], dimension = 2\<rparr>
   \<and> Vector_init ref_host (PList [ENone])
     = Inl (TypeError ''The coordinates must be iterable'')"
  by (simp add: Vector_init_def)

text \<open>
  C4, amended. After a successful construction the stored coordinates are, position by
  position, the \<^verbatim>\<open>Decimal\<close> conversions of the elements of the input (whatever
  \<^verbatim>\<open>Decimal\<close> returns: finite, infinite or NaN; the constructor checks nothing
  more). And when the first element that does not convert is a string outside the
  syntax of decimal numerals, construction fails with \<^verbatim>\<open>decimal.InvalidOperation\<close>
  and the module's message.
\<close>

theorem C4_coordinates_are_conversions:
  "(Vector_init H obj = Inr v \<longrightarrow>
      (\<exists>xs. py_iter obj = Inr xs
         \<and> list_all2 (\<lambda>x d. Decimal H x = Inr d) xs (coordinates v)))
   \<and> (py_iter obj' = Inr (pre @ EStr s # post)
        \<and> map_exc (Decimal H) pre = Inr ds \<and> decimal_of_str H s = None \<longrightarrow>
      Vector_init H obj' = Inl (InvalidOperation ''The coordinates must be a valid number''))"
proof (intro conjI impI)
  assume ok: "Vector_init H obj = Inr v"
  then obtain xs where it: "py_iter obj = Inr xs"
    and conv: "map_exc (Decimal H) xs = Inr (coordinates v)"
    by (cases "py_iter obj")
      (auto simp: Vector_init_def split: if_splits sum.splits pyerr.splits)
  from map_exc_list_all2 [OF conv] it
  show "\<exists>xs. py_iter obj = Inr xs \<and> list_all2 (\<lambda>x d. Decimal H x = Inr d) xs (coordinates v)"
    by blast
next
  assume h: "py_iter obj' = Inr (pre @ EStr s # post)
    \<and> map_exc (Decimal H) pre = Inr ds \<and> decimal_of_str H s = None"
  then have t: "truthy obj'"
    by (auto intro: py_iter_nonempty_truthy)
  from h have "Decimal H (EStr s) = Inl (InvalidOperation [])"
    by simp
  with h have "map_exc (Decimal H) (pre @ EStr s # post) = Inl (InvalidOperation [])"
    by (auto intro: map_exc_first_failure)
  with h t show "Vector_init H obj' = Inl (InvalidOperation ''The coordinates must be a valid number'')"
    by (simp add: Vector_init_def)
qed

theorem C4_coordinates_are_conversions_witness:
  "Vector_init ref_host (PTuple [EInt 7, EStr ''25'', EDecimal NaN])
     = Inr \<lparr>coordinates = [Fin 7 0, Fin 25 0, NaN], dimension = 3\<rparr>
   \<and> (\<exists>xs. py_iter (PTuple [EInt 7, EStr ''25'', EDecimal NaN]) = Inr xs
         \<and> list_all2 (\<lambda>x d. Decimal ref_host x = Inr d) xs [Fin 7 0, Fin 25 0, NaN])
   \<and> py_iter (PList [EInt 7, EStr ''2x'', ENone]) = Inr ([EInt 7] @ EStr ''2x'' # [ENone])
   \<and> map_exc (Decimal ref_host) [EInt 7] = Inr [Fin 7 0]
   \<and> decimal_of_str ref_host ''2x'' = None
   \<and> Vector_init ref_host (PList [EInt 7, EStr ''2x'', ENone])
       = Inl (InvalidOperation ''The coordinates must be a valid number'')"
proof -
  let ?v = "\<lparr>coordinates = [Fin 7 0, Fin 25 0, NaN], dimension = 3\<rparr>"
  have a: "Vector_init ref_host (PTuple [EInt 7, EStr ''25'', EDecimal NaN]) = Inr ?v"
    by (simp add: Vector_init_def ref_host_def read_digits_def)
  have b: "py_iter (PList [EInt 7, EStr ''2x'', ENone]) = Inr ([EInt 7] @ EStr ''2x'' # [ENone])
    \<and> map_exc (Decimal ref_host) [EInt 7] = Inr [Fin 7 0] \<and> decimal_of_str ref_host ''2x'' = None"
    by (simp add: ref_host_def read_digits_def)
  from C4_coordinates_are_conversions
    [of ref_host "PTuple [EInt 7, EStr ''25'', EDecimal NaN]" ?v
        "PList [EInt 7, EStr ''2x'', ENone]" "[EInt 7]" "''2x''" "[ENone]" "[Fin 7 0]"] a b
  show ?thesis
    by simp
qed

section \<open>Rounding to the context\<close>

lemma ndigits_pos: "0 < ndigits n"
  by (subst ndigits.simps) simp

lemma ndigits_le: "n < 10 ^ k \<Longrightarrow> 0 < k \<Longrightarrow> ndigits n \<le> k"
proof (induction k arbitrary: n)
  case 0
  then show ?case by simp
next
  case (Suc k)
  show ?case
  proof (cases "n < 10")
    case True
    then show ?thesis by (subst ndigits.simps) simp
  next
    case False
    with Suc.prems have "n div 10 < 10 ^ k" by simp
    moreover from False Suc.prems have "0 < k" by (cases k) auto
    ultimately have "ndigits (n div 10) \<le> k" by (rule Suc.IH)
    with False show ?thesis by (subst ndigits.simps) simp
  qed
qed

lemma ndigits_bound: "n < 10 ^ ndigits n"
proof (induction n rule: ndigits.induct)
  case (1 n)
  show ?case
  proof (cases "n < 10")
    case True
    then show ?thesis by (subst ndigits.simps) simp
  next
    case False
    with 1 have "n div 10 < 10 ^ ndigits (n div 10)" by simp
    then have "n < 10 * 10 ^ ndigits (n div 10)" by simp
    with False show ?thesis by (subst ndigits.simps) simp
  qed
qed

lemma ndigits_gt: "10 ^ k \<le> n \<Longrightarrow> k < ndigits n"
proof (rule ccontr)
  assume a: "10 ^ k \<le> n" and "\<not> k < ndigits n"
  then have "ndigits n \<le> k" by simp
  then have "(10::nat) ^ ndigits n \<le> 10 ^ k" by (simp add: power_increasing)
  with ndigits_bound [of n] a show False by simp
qed




lemma with_sign_abs [simp]:
  "\<bar>with_sign s n\<bar> = int n" "with_sign s n = 0 \<longleftrightarrow> n = 0"
  by (simp_all add: with_sign_def)


lemma dec_fix_shape:
  fixes c e :: int
  defines "n \<equiv> int (ndigits (nat \<bar>c\<bar>))"
  defines "exp_min \<equiv> max (n + e - int prec) Etiny"
  defines "q \<equiv> round_half_even (nat \<bar>c\<bar>) (10 ^ nat (exp_min - e))"
  shows "dec_fix c e =
     (if c = 0 then Inr (Fin 0 (min (max e Etiny) Emax))
      else if Etop < n + e - int prec then Inl Overflow
      else if e < exp_min then
        (if prec < ndigits q then
           (if Etop < exp_min + 1 then Inl Overflow
            else Inr (Fin (with_sign (c < 0) (q div 10)) (exp_min + 1)))
         else Inr (Fin (with_sign (c < 0) q) exp_min))
      else Inr (Fin c e))"
  unfolding dec_fix_def Let_def n_def exp_min_def q_def by (rule refl)


lemma dec_fix_cases [consumes 0, case_names zero overflow carry rounded exact]:
  fixes c e :: int
  defines "n \<equiv> int (ndigits (nat \<bar>c\<bar>))"
  defines "exp_min \<equiv> max (n + e - int prec) Etiny"
  defines "q \<equiv> round_half_even (nat \<bar>c\<bar>) (10 ^ nat (exp_min - e))"
  obtains
    (zero) "c = 0" "dec_fix c e = Inr (Fin 0 (min (max e Etiny) Emax))"
  | (overflow) "c \<noteq> 0" "dec_fix c e = Inl Overflow"
  | (carry) "c \<noteq> 0" "n + e - int prec \<le> Etop" "e < exp_min" "prec < ndigits q"
      "exp_min + 1 \<le> Etop"
      "dec_fix c e = Inr (Fin (with_sign (c < 0) (q div 10)) (exp_min + 1))"
  | (rounded) "c \<noteq> 0" "n + e - int prec \<le> Etop" "e < exp_min" "ndigits q \<le> prec"
      "dec_fix c e = Inr (Fin (with_sign (c < 0) q) exp_min)"
  | (exact) "c \<noteq> 0" "n + e - int prec \<le> Etop" "exp_min \<le> e"
      "dec_fix c e = Inr (Fin c e)"
proof -
  note shape = dec_fix_shape [of c e, folded n_def, folded exp_min_def, folded q_def]
  show ?thesis
  proof (cases "c = 0")
    case True
    with shape have "dec_fix c e = Inr (Fin 0 (min (max e Etiny) Emax))"
      by (simp only: if_True simp_thms)
    with True show ?thesis by (rule zero)
  next
    case c: False
    show ?thesis
    proof (cases "Etop < n + e - int prec")
      case True
      with c shape have "dec_fix c e = Inl Overflow"
        by (simp only: if_True if_False simp_thms)
      with c show ?thesis by (rule overflow)
    next
      case o1: False
      then have le1: "n + e - int prec \<le> Etop" by (simp only: not_less)
      show ?thesis
      proof (cases "e < exp_min")
        case False
        then have "exp_min \<le> e" by (simp only: not_less)
        moreover from c o1 False shape have "dec_fix c e = Inr (Fin c e)"
          by (simp only: if_True if_False simp_thms)
        ultimately show ?thesis using c le1 by (intro exact)
      next
        case lt: True
        show ?thesis
        proof (cases "prec < ndigits q")
          case False
          then have "ndigits q \<le> prec" by (simp only: not_less)
          moreover from c o1 lt False shape
          have "dec_fix c e = Inr (Fin (with_sign (c < 0) q) exp_min)"
            by (simp only: if_True if_False simp_thms)
          ultimately show ?thesis using c le1 lt by (intro rounded)
        next
          case cy: True
          show ?thesis
          proof (cases "Etop < exp_min + 1")
            case True
            with c o1 lt cy shape have "dec_fix c e = Inl Overflow"
              by (simp only: if_True if_False simp_thms)
            with c show ?thesis by (rule overflow)
          next
            case False
            then have "exp_min + 1 \<le> Etop" by (simp only: not_less)
            moreover from c o1 lt cy False shape
            have "dec_fix c e = Inr (Fin (with_sign (c < 0) (q div 10)) (exp_min + 1))"
              by (simp only: if_True if_False simp_thms)
            ultimately show ?thesis using c le1 lt cy by (intro carry)
          qed
        qed
      qed
    qed
  qed
qed

lemma dec_fix_error: "dec_fix c e = Inl x \<Longrightarrow> x = Overflow"
  by (cases c e rule: dec_fix_cases) (simp_all only: sum.inject sum.distinct)




lemma ndigits_with_sign [simp]: "nat \<bar>with_sign s n\<bar> = n"
  by (simp add: with_sign_def)

lemma fixed_idem: "is_fixed c e \<Longrightarrow> dec_fix c e = Inr (Fin c e)"
proof -
  assume fx: "is_fixed c e"
  define n where "n = int (ndigits (nat \<bar>c\<bar>))"
  define exp_min where "exp_min = max (n + e - int prec) Etiny"
  define q where "q = round_half_even (nat \<bar>c\<bar>) (10 ^ nat (exp_min - e))"
  have shape: "dec_fix c e =
     (if c = 0 then Inr (Fin 0 (min (max e Etiny) Emax))
      else if Etop < n + e - int prec then Inl Overflow
      else if e < exp_min then
        (if prec < ndigits q then
           (if Etop < exp_min + 1 then Inl Overflow
            else Inr (Fin (with_sign (c < 0) (q div 10)) (exp_min + 1)))
         else Inr (Fin (with_sign (c < 0) q) exp_min))
      else Inr (Fin c e))"
    unfolding n_def exp_min_def q_def by (rule dec_fix_shape)
  show ?thesis
  proof (cases "c = 0")
    case True
    with fx have "Etiny \<le> e" "e \<le> Emax" by (simp_all add: is_fixed_def)
    then have "min (max e Etiny) Emax = e" by simp
    with shape True show ?thesis by simp
  next
    case False
    with fx have "n \<le> int prec" "n + e - int prec \<le> Etop" "Etiny \<le> e"
      by (simp_all add: is_fixed_def n_def)
    then have a: "\<not> Etop < n + e - int prec" and b: "\<not> e < exp_min"
      by (simp_all add: exp_min_def)
    from shape False a b show ?thesis by (simp only: if_False simp_thms)
  qed
qed




lemma is_fixed_neg [simp]: "is_fixed (- c) e = is_fixed c e"
  by (simp add: is_fixed_def)


section \<open>The cross product\<close>

lemma and_then_assoc: "and_then (and_then m f) g = and_then m (\<lambda>x. and_then (f x) g)"
  by (cases m) simp_all

lemma and_then_Inr [simp]: "and_then m Inr = m"
  by (cases m) simp_all

lemma length_3: "length xs = 3 \<Longrightarrow> \<exists>a b c. xs = [a, b, c]"
  by (cases xs; cases "tl xs"; cases "tl (tl xs)") auto

lemma cross_is_formula:
  assumes "is_Vector v" "is_Vector w" "dimension v = 3" "dimension w = 3"
  shows "cross H v (PVector w) =
    and_then (cross_formula (coordinates v) (coordinates w))
      (\<lambda>cs. Inr \<lparr>coordinates = cs, dimension = 3\<rparr>)"
proof -
  from assms obtain x1 y1 z1 x2 y2 z2 where
    v: "coordinates v = [x1, y1, z1]" and w: "coordinates w = [x2, y2, z2]"
    unfolding is_Vector_def using length_3 [of "coordinates v"] length_3 [of "coordinates w"]
    by auto
  have init: "Vector_init H (PList [EDecimal x, EDecimal y, EDecimal z])
      = Inr \<lparr>coordinates = [x, y, z], dimension = 3\<rparr>" for x y z
    using Vector_init_decimals [of H "[x, y, z]"] by simp
  show ?thesis
    using assms(3,4)
    by (simp add: cross_def v w minor_def and_then_assoc init)
qed


lemma dec_sub_Fin: "dec_sub (Fin a e) (Fin b f) =
    dec_fix (a * 10 ^ nat (e - min e f) - b * 10 ^ nat (f - min e f)) (min e f)"
  by (simp add: dec_sub_def Let_def)




lemma dec_neg_fixed: "is_fixed c e \<Longrightarrow> dec_neg (Fin c e) = Inr (Fin (- c) e)"
  using fixed_idem [of "- c" e] by simp



lemma dec_mul_error: "dec_mul a b = Inl x \<Longrightarrow> x = InvalidOperation [] \<or> x = Overflow"
  by (cases "(a, b)" rule: dec_mul.cases) (auto dest: dec_fix_error split: if_splits)

lemma dec_add_error: "dec_add a b = Inl x \<Longrightarrow> x = InvalidOperation [] \<or> x = Overflow"
  by (cases "(a, b)" rule: dec_add.cases) (auto dest: dec_fix_error simp: Let_def split: if_splits)

lemma dec_sub_error: "dec_sub a b = Inl x \<Longrightarrow> x = InvalidOperation [] \<or> x = Overflow"
  unfolding dec_sub_def by (rule dec_add_error)

lemma dec_neg_error: "dec_neg a = Inl x \<Longrightarrow> x = InvalidOperation [] \<or> x = Overflow"
  by (cases a) (auto dest: dec_fix_error)

lemma and_then_error: "and_then m f = Inl x \<Longrightarrow> m = Inl x \<or> (\<exists>y. m = Inr y \<and> f y = Inl x)"
  by (cases m) simp_all

lemma minor_error: "minor a b c d = Inl x \<Longrightarrow> x = InvalidOperation [] \<or> x = Overflow"
  unfolding minor_def
  by (auto dest!: and_then_error dest: dec_mul_error dec_sub_error)

lemma cross_formula_error:
  "cross_formula [x1, y1, z1] [x2, y2, z2] = Inl x \<Longrightarrow> x = InvalidOperation [] \<or> x = Overflow"
  by (auto dest!: and_then_error dest: minor_error dec_neg_error)

lemma fix_small: "\<bar>c\<bar> < 10 ^ 30 \<Longrightarrow> dec_fix c 0 = Inr (Fin c 0)"
proof (rule fixed_idem)
  assume a: "\<bar>c\<bar> < 10 ^ 30"
  then have "nat \<bar>c\<bar> < 10 ^ 30" by (simp add: nat_less_iff)
  then have "ndigits (nat \<bar>c\<bar>) \<le> 30" by (rule ndigits_le) simp
  then show "is_fixed c 0"
    by (simp add: is_fixed_def Etiny_def Emin_def Emax_def Etop_def prec_def)
qed

lemma product_bound:
  fixes a b :: int
  assumes "\<bar>a\<bar> \<le> 10 ^ 14" "\<bar>b\<bar> \<le> 10 ^ 14"
  shows "\<bar>a * b\<bar> \<le> 10 ^ 28"
proof -
  have "\<bar>a\<bar> * \<bar>b\<bar> \<le> 10 ^ 14 * 10 ^ 14"
    using assms by (intro mult_mono) simp_all
  then show ?thesis by (simp add: abs_mult)
qed

lemma minor_integers:
  assumes "\<bar>a\<bar> \<le> 10 ^ 14" "\<bar>b\<bar> \<le> 10 ^ 14" "\<bar>c\<bar> \<le> 10 ^ 14" "\<bar>d\<bar> \<le> 10 ^ 14"
  shows "minor (Fin a 0) (Fin b 0) (Fin c 0) (Fin d 0) = Inr (Fin (a * b - c * d) 0)"
    and "\<bar>a * b - c * d\<bar> < 10 ^ 30"
proof -
  have p: "\<bar>a * b\<bar> \<le> 10 ^ 28" by (rule product_bound [OF assms(1,2)])
  have q: "\<bar>c * d\<bar> \<le> 10 ^ 28" by (rule product_bound [OF assms(3,4)])
  have n: "(10::int) ^ 28 + 10 ^ 28 < 10 ^ 30" "(10::int) ^ 28 < 10 ^ 30" by simp_all
  from p q n show r: "\<bar>a * b - c * d\<bar> < 10 ^ 30" by linarith
  from p q n have "\<bar>a * b\<bar> < 10 ^ 30" "\<bar>c * d\<bar> < 10 ^ 30" by linarith+
  with r show "minor (Fin a 0) (Fin b 0) (Fin c 0) (Fin d 0) = Inr (Fin (a * b - c * d) 0)"
    by (simp add: minor_def fix_small dec_sub_Fin)
qed

lemma cross_formula_integers:
  assumes "\<bar>x1\<bar> \<le> 10 ^ 14" "\<bar>y1\<bar> \<le> 10 ^ 14" "\<bar>z1\<bar> \<le> 10 ^ 14"
    "\<bar>x2\<bar> \<le> 10 ^ 14" "\<bar>y2\<bar> \<le> 10 ^ 14" "\<bar>z2\<bar> \<le> 10 ^ 14"
  shows "cross_formula [Fin x1 0, Fin y1 0, Fin z1 0] [Fin x2 0, Fin y2 0, Fin z2 0] =
    Inr [Fin (y1 * z2 - y2 * z1) 0, Fin (- (x1 * z2 - x2 * z1)) 0, Fin (x1 * y2 - x2 * y1) 0]"
proof -
  from minor_integers [of x1 z2 x2 z1] assms
  have "\<bar>- (x1 * z2 - x2 * z1)\<bar> < 10 ^ 30" by simp
  then have "dec_neg (Fin (x1 * z2 - x2 * z1) 0) = Inr (Fin (- (x1 * z2 - x2 * z1)) 0)"
    by (simp only: dec_neg.simps fix_small)
  with assms show ?thesis
    by (simp add: minor_integers)
qed


lemma cross_integers:
  assumes "\<bar>x1\<bar> \<le> 10 ^ 14" "\<bar>y1\<bar> \<le> 10 ^ 14" "\<bar>z1\<bar> \<le> 10 ^ 14"
    "\<bar>x2\<bar> \<le> 10 ^ 14" "\<bar>y2\<bar> \<le> 10 ^ 14" "\<bar>z2\<bar> \<le> 10 ^ 14"
  shows "cross H \<lparr>coordinates = [Fin x1 0, Fin y1 0, Fin z1 0], dimension = 3\<rparr>
          (PVector \<lparr>coordinates = [Fin x2 0, Fin y2 0, Fin z2 0], dimension = 3\<rparr>)
        = Inr \<lparr>coordinates = [Fin (y1 * z2 - y2 * z1) 0, Fin (- (x1 * z2 - x2 * z1)) 0,
                                 Fin (x1 * y2 - x2 * y1) 0], dimension = 3\<rparr>"
proof -
  let ?v = "\<lparr>coordinates = [Fin x1 0, Fin y1 0, Fin z1 0], dimension = 3\<rparr>"
  let ?w = "\<lparr>coordinates = [Fin x2 0, Fin y2 0, Fin z2 0], dimension = 3\<rparr>"
  have "cross H ?v (PVector ?w) =
      and_then (cross_formula (coordinates ?v) (coordinates ?w))
        (\<lambda>cs. Inr \<lparr>coordinates = cs, dimension = 3\<rparr>)"
    by (rule cross_is_formula) (simp_all add: is_Vector_def)
  also from assms have "cross_formula (coordinates ?v) (coordinates ?w) =
      Inr [Fin (y1 * z2 - y2 * z1) 0, Fin (- (x1 * z2 - x2 * z1)) 0, Fin (x1 * y2 - x2 * y1) 0]"
    by (simp only: vector.simps cross_formula_integers)
  finally show ?thesis by simp
qed

text \<open>
  C3, as stated, fails in its \<open>if\<close> direction: both operands have dimension 3 and
  \<^verbatim>\<open>cross\<close> does not succeed. With the coordinates \<open>10 ^ 600000\<close> the first
  product exceeds the exponent range of the context and the library raises
  \<^verbatim>\<open>Overflow\<close>; with an infinite coordinate the product of the infinity and a
  zero raises \<^verbatim>\<open>InvalidOperation\<close>.
\<close>
theorem C3_counterexample:
  "is_Vector \<lparr>coordinates = [Fin 1 600000, Fin 1 600000, Fin 1 600000], dimension = 3\<rparr>
   \<and> Vector_init ref_host (PList [EDecimal (Fin 1 600000), EDecimal (Fin 1 600000),
         EDecimal (Fin 1 600000)])
       = Inr \<lparr>coordinates = [Fin 1 600000, Fin 1 600000, Fin 1 600000], dimension = 3\<rparr>
   \<and> cross ref_host \<lparr>coordinates = [Fin 1 600000, Fin 1 600000, Fin 1 600000], dimension = 3\<rparr>
        (PVector \<lparr>coordinates = [Fin 1 600000, Fin 1 600000, Fin 1 600000], dimension = 3\<rparr>)
       = Inl Overflow
   \<and> cross ref_host \<lparr>coordinates = [Inf False, Fin 0 0, Fin 0 0], dimension = 3\<rparr>
        (PVector \<lparr>coordinates = [Fin 0 0, Fin 1 0, Fin 0 0], dimension = 3\<rparr>)
       = Inl (InvalidOperation [])"
  by (simp add: is_Vector_def Vector_init_def cross_def dec_fix_def Let_def ndigits.simps
      dec_sub_def prec_def Etop_def Emax_def Etiny_def Emin_def)

text \<open>
  C3, amended. An operand that is not a \<^verbatim>\<open>Vector\<close> fails with the
  \<^verbatim>\<open>TypeError\<close> of the module. For two vectors, \<^verbatim>\<open>cross\<close> fails with
  \<^verbatim>\<open>NotImplementedError\<close> exactly when the dimensions are not both 3 (equal
  dimensions other than 3 included). When both are 3, its outcome is that of the three
  components \<open>y1*z2 - y2*z1\<close>, \<open>-(x1*z2 - x2*z1)\<close>, \<open>x1*y2 - x2*y1\<close> computed in
  the decimal context, in this order: the vector of the three, or the exception of the
  first operation that raises. For integer coordinates of at most 14 digits it returns
  exactly the integer cross product.
\<close>
theorem C3_cross_outcomes:
  "((\<forall>w. obj \<noteq> PVector w) \<longrightarrow> cross H v obj = Inl (TypeError ''Argument must be a vector''))
   \<and> (is_Vector v \<and> is_Vector w \<longrightarrow>
        (cross H v (PVector w) = Inl NotImplementedError
           \<longleftrightarrow> \<not> (dimension v = 3 \<and> dimension w = 3))
        \<and> (dimension v = 3 \<and> dimension w = 3 \<longrightarrow>
             cross H v (PVector w) =
               and_then (cross_formula (coordinates v) (coordinates w))
                 (\<lambda>cs. Inr \<lparr>coordinates = cs, dimension = 3\<rparr>)))
   \<and> (\<bar>x1\<bar> \<le> 10 ^ 14 \<and> \<bar>y1\<bar> \<le> 10 ^ 14 \<and> \<bar>z1\<bar> \<le> 10 ^ 14
        \<and> \<bar>x2\<bar> \<le> 10 ^ 14 \<and> \<bar>y2\<bar> \<le> 10 ^ 14 \<and> \<bar>z2\<bar> \<le> 10 ^ 14 \<longrightarrow>
        cross H \<lparr>coordinates = [Fin x1 0, Fin y1 0, Fin z1 0], dimension = 3\<rparr>
          (PVector \<lparr>coordinates = [Fin x2 0, Fin y2 0, Fin z2 0], dimension = 3\<rparr>)
        = Inr \<lparr>coordinates = [Fin (y1 * z2 - y2 * z1) 0, Fin (- (x1 * z2 - x2 * z1)) 0,
                                 Fin (x1 * y2 - x2 * y1) 0], dimension = 3\<rparr>)"
proof (intro conjI impI)
  assume "\<forall>w. obj \<noteq> PVector w"
  then show "cross H v obj = Inl (TypeError ''Argument must be a vector'')"
    by (cases obj) (simp_all add: cross_def)
next
  assume vw: "is_Vector v \<and> is_Vector w"
  show "cross H v (PVector w) = Inl NotImplementedError
      \<longleftrightarrow> \<not> (dimension v = 3 \<and> dimension w = 3)"
  proof (cases "dimension v = 3 \<and> dimension w = 3")
    case False
    then show ?thesis by (auto simp: cross_def)
  next
    case True
    with vw have eq: "cross H v (PVector w) =
        and_then (cross_formula (coordinates v) (coordinates w))
          (\<lambda>cs. Inr \<lparr>coordinates = cs, dimension = 3\<rparr>)"
      by (simp add: cross_is_formula)
    from vw True obtain x1 y1 z1 x2 y2 z2 where
      c: "coordinates v = [x1, y1, z1]" "coordinates w = [x2, y2, z2]"
      unfolding is_Vector_def using length_3 [of "coordinates v"] length_3 [of "coordinates w"]
      by auto
    have "cross H v (PVector w) \<noteq> Inl NotImplementedError"
    proof
      assume "cross H v (PVector w) = Inl NotImplementedError"
      with eq have "cross_formula [x1, y1, z1] [x2, y2, z2] = Inl NotImplementedError"
        unfolding c by (cases "cross_formula [x1, y1, z1] [x2, y2, z2]") simp_all
      from cross_formula_error [OF this] show False by simp
    qed
    with True show ?thesis by simp
  qed
next
  assume "is_Vector v \<and> is_Vector w" "dimension v = 3 \<and> dimension w = 3"
  then show "cross H v (PVector w) =
      and_then (cross_formula (coordinates v) (coordinates w))
        (\<lambda>cs. Inr \<lparr>coordinates = cs, dimension = 3\<rparr>)"
    by (simp add: cross_is_formula)
next
  assume "\<bar>x1\<bar> \<le> 10 ^ 14 \<and> \<bar>y1\<bar> \<le> 10 ^ 14 \<and> \<bar>z1\<bar> \<le> 10 ^ 14
        \<and> \<bar>x2\<bar> \<le> 10 ^ 14 \<and> \<bar>y2\<bar> \<le> 10 ^ 14 \<and> \<bar>z2\<bar> \<le> 10 ^ 14"
  then show "cross H \<lparr>coordinates = [Fin x1 0, Fin y1 0, Fin z1 0], dimension = 3\<rparr>
        (PVector \<lparr>coordinates = [Fin x2 0, Fin y2 0, Fin z2 0], dimension = 3\<rparr>)
      = Inr \<lparr>coordinates = [Fin (y1 * z2 - y2 * z1) 0, Fin (- (x1 * z2 - x2 * z1)) 0,
                               Fin (x1 * y2 - x2 * y1) 0], dimension = 3\<rparr>"
    by (intro cross_integers) simp_all
qed


text \<open>The hypotheses of C3 hold of the vectors \<open>(1, 2, 3)\<close>, \<open>(4, 5, 6)\<close> and
  \<open>(1, 2)\<close>, and of the operand \<open>5\<close>.\<close>
theorem C3_cross_outcomes_witness:
  "cross ref_host \<lparr>coordinates = [Fin 1 0, Fin 2 0, Fin 3 0], dimension = 3\<rparr> (PScalar (EInt 5))
     = Inl (TypeError ''Argument must be a vector'')
   \<and> is_Vector \<lparr>coordinates = [Fin 1 0, Fin 2 0, Fin 3 0], dimension = 3\<rparr>
   \<and> is_Vector \<lparr>coordinates = [Fin 4 0, Fin 5 0, Fin 6 0], dimension = 3\<rparr>
   \<and> cross ref_host \<lparr>coordinates = [Fin 1 0, Fin 2 0, Fin 3 0], dimension = 3\<rparr>
        (PVector \<lparr>coordinates = [Fin 4 0, Fin 5 0, Fin 6 0], dimension = 3\<rparr>)
       = Inr \<lparr>coordinates = [Fin (- 3) 0, Fin 6 0, Fin (- 3) 0], dimension = 3\<rparr>
   \<and> is_Vector \<lparr>coordinates = [Fin 1 0, Fin 2 0], dimension = 2\<rparr>
   \<and> cross ref_host \<lparr>coordinates = [Fin 1 0, Fin 2 0], dimension = 2\<rparr>
        (PVector \<lparr>coordinates = [Fin 1 0, Fin 2 0], dimension = 2\<rparr>)
       = Inl NotImplementedError"
proof -
  let ?v = "\<lparr>coordinates = [Fin 1 0, Fin 2 0, Fin 3 0], dimension = 3\<rparr>"
  let ?w = "\<lparr>coordinates = [Fin 4 0, Fin 5 0, Fin 6 0], dimension = 3\<rparr>"
  let ?u = "\<lparr>coordinates = [Fin 1 0, Fin 2 0], dimension = 2\<rparr>"
  have iv: "is_Vector ?v" "is_Vector ?w" "is_Vector ?u" by (simp_all add: is_Vector_def)
  from C3_cross_outcomes [where obj = "PScalar (EInt 5)" and H = ref_host and v = ?v and w = ?w
      and ?x1.0 = 1 and ?y1.0 = 2 and ?z1.0 = 3 and ?x2.0 = 4 and ?y2.0 = 5 and ?z2.0 = 6]
  have a: "cross ref_host ?v (PScalar (EInt 5)) = Inl (TypeError ''Argument must be a vector'')"
    and b: "cross ref_host ?v (PVector ?w)
      = Inr \<lparr>coordinates = [Fin (- 3) 0, Fin 6 0, Fin (- 3) 0], dimension = 3\<rparr>"
    by simp_all
  from C3_cross_outcomes [where H = ref_host and v = ?u and w = ?u] iv
  have c: "cross ref_host ?u (PVector ?u) = Inl NotImplementedError" by simp
  from iv a b c show ?thesis by simp
qed






section \<open>Operations that pair coordinates by position\<close>

















lemma first_coordinates_simps [simp]:
  "coordinates (first_coordinates n w) = take n (coordinates w)"
  "dimension (first_coordinates n w) = n"
  by (simp_all add: first_coordinates_def)










end
